theory Spec2Isabelle
  imports Complex_Main
begin

section \<open>The YOLO-OBB node of yolo\_2d\_obb.py\<close>

text \<open>
  The node is one class, \<open>YoloOBBNode\<close>, with a constructor and one subscriber callback.
  Python floats are idealised as \<^typ>\<open>real\<close>; the image raster and the message header are
  opaque to the node (it only hands them on), so they are type parameters \<open>'img\<close> and
  \<open>'h\<close>. The libraries the node calls (time, OpenCV, Ultralytics, rospy) are parameters
  of the model: a record of what each call returns or raises. What \<open>cv2.imdecode\<close> returns
  is an image or \<open>None\<close> (its answer to bytes that are no image), so a decoded frame is
  an \<open>'img option\<close>.
\<close>

subsection \<open>Exceptions and log lines\<close>

datatype exn = Exception string | KeyError int | IndexError

datatype severity = INFO | WARN | ERROR | FATAL

text \<open>A log line \<open>f"text{e}"\<close>: the severity, the fixed text and the exception printed
  after it (if any).\<close>

datatype log = Log severity string "exn option"

subsection \<open>Messages\<close>

type_synonym bytes = "nat list"

record 'h stamped =
  header :: 'h

text \<open>\<open>sensor_msgs/CompressedImage\<close>: the input frame and the annotated output.\<close>

record 'h compressed_image = "'h stamped" +
  format :: string
  data :: bytes

text \<open>\<open>OBBDetection\<close>, with the fields that lines 125 to 136 assign.\<close>

record obb_detection =
  class_id :: int
  class_name :: string
  score :: real
  x_center :: real
  y_center :: real
  width :: real
  height :: real
  angle :: real

record 'h obb_detection_array = "'h stamped" +
  detections :: "obb_detection list"

text \<open>What the node hands to one of its two publishers, in the order of the calls.\<close>

datatype 'h pub = Annotated "'h compressed_image" | Detections "'h obb_detection_array"

subsection \<open>The detector\<close>

text \<open>One element of \<open>result.obb\<close>: the class tensor, the confidence tensor and the row
  \<open>xywhr[0]\<close>, which the detector gives as five numbers.\<close>

record raw_obb =
  cls :: real
  conf :: real
  xywhr :: "real \<times> real \<times> real \<times> real \<times> real"

text \<open>One \<open>Results\<close> object: \<open>result.obb\<close> (which may be \<open>None\<close>) and the image
  that \<open>result.plot()\<close> returns when it returns.\<close>

record 'img yolo_result =
  obb :: "raw_obb list option"
  plot :: 'img

text \<open>\<open>self.model\<close>: the dict \<open>names\<close> from class id to class name, and the call
  \<open>self.model(cv_image, conf=..., verbose=False)\<close>, which returns a list of results or
  raises.\<close>

record 'img yolo =
  names :: "int \<rightharpoonup> string"
  predict :: "'img option \<Rightarrow> real \<Rightarrow> exn + 'img yolo_result list"

subsection \<open>The node object\<close>

record 'img node =
  engine_model_path :: string
  input_topic :: string
  obb_topic :: string
  annotated_image_topic :: string
  confidence_threshold :: real
  proc_prev_time :: real
  proc_fps :: real
  sub_prev_time :: real
  sub_fps :: real
  model :: "'img yolo"

subsection \<open>Construction (lines 19 to 63)\<close>

text \<open>The private parameters of the node as the parameter server holds them:
  \<open>None\<close> is a parameter that is not set.\<close>

record launch_params =
  param_pt_model_path :: "string option"
  param_engine_model_path :: "string option"
  param_input_topic :: "string option"
  param_obb_topic :: "string option"
  param_annotated_image_topic :: "string option"
  param_confidence_threshold :: "real option"

definition get_param :: "'a option \<Rightarrow> 'a \<Rightarrow> 'a" where
  "get_param p dflt = (case p of Some v \<Rightarrow> v | None \<Rightarrow> dflt)"

text \<open>The file system and the model loader at startup: \<open>os.path.exists\<close>, \<open>YOLO(path)\<close>
  (a model or an exception) and \<open>pt_model.export(...)\<close> (\<open>Some e\<close> when it raises).\<close>

record 'img host =
  path_exists :: "string \<Rightarrow> bool"
  YOLO :: "string \<Rightarrow> exn + 'img yolo"
  export :: "'img yolo \<Rightarrow> exn option"

text \<open>How the constructor ends: an exception leaves it (no handler around the export),
  it returns early without subscriber or publishers, or the node is ready.\<close>

datatype 'img startup =
    Init_raised exn "log list"
  | Not_serving "log list"
  | Serving "'img node" "log list"

text \<open>Lines 51 to 63: load the engine, then register subscriber and publishers.\<close>

definition load_engine ::
  "'img host \<Rightarrow> launch_params \<Rightarrow> log list \<Rightarrow> 'img startup" where
  "load_engine h p logs =
     (let engine = get_param (param_engine_model_path p) '''';
          logs1 = logs @ [Log INFO (''Loading TensorRT engine from '' @ engine) None]
      in case YOLO h engine of
           Inl e \<Rightarrow>
             Not_serving (logs1 @ [Log FATAL ''Failed to load YOLO-OBB model. Error: '' (Some e)])
         | Inr m \<Rightarrow>
             Serving
               \<lparr> engine_model_path = engine,
                 input_topic =
                   get_param (param_input_topic p) ''/camera/color/image_raw/compressed'',
                 obb_topic = get_param (param_obb_topic p) ''/yolo_obb'',
                 annotated_image_topic =
                   get_param (param_annotated_image_topic p)
                     ''/yolo_obb/camera/color/compressed'',
                 confidence_threshold = get_param (param_confidence_threshold p) 0.5,
                 proc_prev_time = 0,
                 proc_fps = 0,
                 sub_prev_time = 0,
                 sub_fps = 0,
                 model = m \<rparr>
               (logs1 @ [Log INFO ''Ultralytics YOLO-OBB model loaded successfully.'' None,
                         Log INFO ''YOLO OBB Ultralytics node initialized and ready.'' None]))"

definition init :: "'img host \<Rightarrow> launch_params \<Rightarrow> 'img startup" where
  "init h p =
     (let pt_model_path = get_param (param_pt_model_path p) '''';
          engine = get_param (param_engine_model_path p) ''''
      in if \<not> path_exists h engine then
           (let logs0 = [Log WARN (''TensorRT engine not found at '' @ engine
                                     @ ''. Exporting from .pt model...'') None]
            in if \<not> path_exists h pt_model_path then
                 Not_serving
                   (logs0 @ [Log FATAL (''.pt model not found at '' @ pt_model_path
                                          @ ''. Cannot create engine. Shutting down.'') None])
               else
                 (let logs1 = logs0 @ [Log INFO (''Loading .pt model from '' @ pt_model_path
                                                   @ '' for export.'') None]
                  in case YOLO h pt_model_path of
                       Inl e \<Rightarrow> Init_raised e logs1
                     | Inr pt_model \<Rightarrow>
                         (case export h pt_model of
                            Some e \<Rightarrow> Init_raised e logs1
                          | None \<Rightarrow>
                              load_engine h p
                                (logs1 @ [Log INFO (''Export complete. Engine saved to ''
                                                     @ engine) None]))))
         else load_engine h p [])"

subsection \<open>The callback (lines 65 to 140)\<close>

text \<open>What the libraries answer during one call of \<open>image_callback\<close>: the three readings
  of \<open>time.time()\<close> (lines 67, 74, 90), \<open>cv2.imdecode\<close> on the frame's bytes (an exception,
  or the value it returns, an image or \<open>None\<close>, which the callback hands to the detector
  unexamined), \<open>cv2.putText\<close>, the format \<open>:.1f\<close>, \<open>cv2.imencode\<close> (the pair
  \<open>(ret, buffer)\<close> or an exception) and \<open>annotated_image_pub.publish\<close> (\<open>Some e\<close> when
  it raises).\<close>

record ('h, 'img) runtime =
  time_sub :: real
  time_start :: real
  time_end :: real
  imdecode :: "bytes \<Rightarrow> exn + 'img option"
  putText :: "'img \<Rightarrow> string \<Rightarrow> int \<times> int \<Rightarrow> 'img"
  format_1f :: "real \<Rightarrow> string"
  imencode :: "'img \<Rightarrow> exn + bool \<times> bytes"
  image_publish :: "'h compressed_image \<Rightarrow> exn option"

text \<open>What one call leaves behind: the node's fields, the messages published in order,
  the log lines, and the exception that left the callback, if one did.\<close>

record ('h, 'img) outcome =
  node_after :: "'img node"
  published :: "'h pub list"
  logged :: "log list"
  uncaught :: "exn option"

text \<open>Lines 68 to 72.\<close>

definition track_sub :: "real \<Rightarrow> 'img node \<Rightarrow> 'img node" where
  "track_sub sub_current_time self =
     (let self1 =
        (if sub_prev_time self > 0 then
           (let time_diff = sub_current_time - sub_prev_time self
            in if time_diff > 0
               then self\<lparr>sub_fps := (sub_fps self * 0.9) + (1.0 / time_diff * 0.1)\<rparr>
               else self)
         else self)
      in self1\<lparr>sub_prev_time := sub_current_time\<rparr>)"

text \<open>Lines 91 to 95.\<close>

definition track_proc :: "real \<Rightarrow> 'img node \<Rightarrow> 'img node" where
  "track_proc proc_end_time self =
     (let self1 =
        (if proc_prev_time self > 0 then
           (let time_diff = proc_end_time - proc_prev_time self
            in if time_diff > 0
               then self\<lparr>proc_fps := (proc_fps self * 0.9) + (1.0 / time_diff * 0.1)\<rparr>
               else self)
         else self)
      in self1\<lparr>proc_prev_time := proc_end_time\<rparr>)"

text \<open>Lines 97 to 100: the two text lines drawn on the annotated frame.\<close>

definition draw_fps :: "('h, 'img) runtime \<Rightarrow> 'img node \<Rightarrow> 'img \<Rightarrow> 'img" where
  "draw_fps w self annotated_frame =
     (let sub_fps_text = ''Sub FPS: '' @ format_1f w (sub_fps self);
          proc_fps_text = ''Proc FPS: '' @ format_1f w (proc_fps self)
      in putText w (putText w annotated_frame sub_fps_text (10, 30)) proc_fps_text (10, 70))"

text \<open>Lines 103 to 114, the \<open>try\<close> block around the annotated image: it publishes the
  message, or \<open>imencode\<close> says \<open>ret = False\<close> and the callback returns (line 110), or an
  exception is caught (line 113).\<close>

datatype 'h image_step = Image_published "'h compressed_image" | Encode_failed | Caught exn

definition publish_annotated ::
  "('h, 'img) runtime \<Rightarrow> 'h \<Rightarrow> 'img \<Rightarrow> 'h image_step" where
  "publish_annotated w hdr annotated_frame =
     (case imencode w annotated_frame of
        Inl e \<Rightarrow> Caught e
      | Inr (ret, buffer) \<Rightarrow>
          if \<not> ret then Encode_failed
          else
            (let annotated_image_msg = \<lparr> header = hdr, format = ''jpeg'', data = buffer \<rparr>
             in case image_publish w annotated_image_msg of
                  Some e \<Rightarrow> Caught e
                | None \<Rightarrow> Image_published annotated_image_msg))"

text \<open>\<open>int(x)\<close> of a float rounds towards zero.\<close>

definition py_int :: "real \<Rightarrow> int" where
  "py_int x = (if 0 \<le> x then \<lfloor>x\<rfloor> else \<lceil>x\<rceil>)"

text \<open>Lines 123 to 136, one detection. \<open>self.model.names[class_id]\<close> raises \<open>KeyError\<close>
  for a key that the dict does not have.\<close>

definition to_detection :: "(int \<rightharpoonup> string) \<Rightarrow> raw_obb \<Rightarrow> exn + obb_detection" where
  "to_detection nms ob =
     (let class_id = py_int (cls ob)
      in case nms class_id of
           None \<Rightarrow> Inl (KeyError class_id)
         | Some name \<Rightarrow>
             (case xywhr ob of
                (x, y, w, h, r) \<Rightarrow>
                  Inr \<lparr> class_id = class_id, class_name = name, score = conf ob,
                        x_center = x, y_center = y, width = w, height = h, angle = r \<rparr>))"

text \<open>Lines 122 to 138, the loop: it appends one detection per element and stops at the
  first exception.\<close>

fun append_detections ::
  "(int \<rightharpoonup> string) \<Rightarrow> raw_obb list \<Rightarrow> obb_detection list \<Rightarrow> exn + obb_detection list" where
  "append_detections nms [] dets = Inr dets"
| "append_detections nms (ob # obs) dets =
     (case to_detection nms ob of
        Inl e \<Rightarrow> Inl e
      | Inr det \<Rightarrow> append_detections nms obs (dets @ [det]))"

text \<open>Lines 118 to 138: the detections of the message, empty when \<open>result.obb\<close> is
  \<open>None\<close>.\<close>

definition build_detections ::
  "(int \<rightharpoonup> string) \<Rightarrow> raw_obb list option \<Rightarrow> exn + obb_detection list" where
  "build_detections nms res_obb =
     (case res_obb of None \<Rightarrow> Inr [] | Some obs \<Rightarrow> append_detections nms obs [])"

text \<open>Lines 102 to 140, everything after the frame has been annotated.\<close>

definition publish_results ::
  "('h, 'img) runtime \<Rightarrow> 'img node \<Rightarrow> 'h \<Rightarrow> 'img yolo_result \<Rightarrow> 'img \<Rightarrow> ('h, 'img) outcome" where
  "publish_results w self hdr result annotated_frame =
     (case publish_annotated w hdr annotated_frame of
        Encode_failed \<Rightarrow>
          \<lparr> node_after = self, published = [],
            logged = [Log ERROR ''Failed to encode annotated image.'' None],
            uncaught = None \<rparr>
      | step \<Rightarrow>
          (let pubs = (case step of Image_published m \<Rightarrow> [Annotated m] | _ \<Rightarrow> []);
               logs = (case step of
                         Caught e \<Rightarrow> [Log ERROR ''Error publishing annotated image: '' (Some e)]
                       | _ \<Rightarrow> [])
           in case build_detections (names (model self)) (obb result) of
                Inl e \<Rightarrow>
                  \<lparr> node_after = self, published = pubs, logged = logs, uncaught = Some e \<rparr>
              | Inr dets \<Rightarrow>
                  \<lparr> node_after = self,
                    published = pubs @ [Detections \<lparr> header = hdr, detections = dets \<rparr>],
                    logged = logs, uncaught = None \<rparr>))"

text \<open>Line 87, \<open>result.plot()\<close>. The detector library draws every box of \<open>result.obb\<close>
  with its label \<open>names[int(cls)]\<close>, from the last box to the first, and \<open>names\<close> is the
  table of line 126: the call raises \<open>KeyError\<close> for a class id that the table does not
  have, and returns the drawn image otherwise.\<close>

fun plot_labels :: "(int \<rightharpoonup> string) \<Rightarrow> raw_obb list \<Rightarrow> exn option" where
  "plot_labels nms [] = None"
| "plot_labels nms (ob # obs) =
     (case nms (py_int (cls ob)) of
        None \<Rightarrow> Some (KeyError (py_int (cls ob)))
      | Some name \<Rightarrow> plot_labels nms obs)"

definition result_plot :: "(int \<rightharpoonup> string) \<Rightarrow> 'img yolo_result \<Rightarrow> exn + 'img" where
  "result_plot nms result =
     (case obb result of
        None \<Rightarrow> Inr (plot result)
      | Some obs \<Rightarrow>
          (case plot_labels nms (rev obs) of
             Some e \<Rightarrow> Inl e
           | None \<Rightarrow> Inr (plot result)))"

text \<open>The callback. \<open>results[0]\<close> raises \<open>IndexError\<close> on an empty list; no handler is
  around the detector call or around \<open>result.plot()\<close>, so their exceptions leave the
  callback.\<close>

definition image_callback ::
  "('h, 'img) runtime \<Rightarrow> 'img node \<Rightarrow> 'h compressed_image \<Rightarrow> ('h, 'img) outcome" where
  "image_callback w self0 msg =
     (let self1 = track_sub (time_sub w) self0;
          proc_start_time = time_start w
      in case imdecode w (data msg) of
           Inl e \<Rightarrow>
             \<lparr> node_after = self1, published = [],
               logged = [Log ERROR ''Error decoding compressed image: '' (Some e)],
               uncaught = None \<rparr>
         | Inr cv_image \<Rightarrow>
             (case predict (model self1) cv_image (confidence_threshold self1) of
                Inl e \<Rightarrow>
                  \<lparr> node_after = self1, published = [], logged = [], uncaught = Some e \<rparr>
              | Inr [] \<Rightarrow>
                  \<lparr> node_after = self1, published = [], logged = [],
                    uncaught = Some IndexError \<rparr>
              | Inr (result # _) \<Rightarrow>
                  (case result_plot (names (model self1)) result of
                     Inl e \<Rightarrow>
                       \<lparr> node_after = self1, published = [], logged = [],
                         uncaught = Some e \<rparr>
                   | Inr annotated_frame \<Rightarrow>
                       (let self2 = track_proc (time_end w) self1
                        in publish_results w self2 (header msg) result
                             (draw_fps w self2 annotated_frame)))))"

text \<open>The frame that reaches line 103: both trackers have run, the detector's plot has
  the two text lines on it.\<close>

abbreviation tracked :: "('h, 'img) runtime \<Rightarrow> 'img node \<Rightarrow> 'img node" where
  "tracked w self \<equiv> track_proc (time_end w) (track_sub (time_sub w) self)"

abbreviation annotated_frame ::
  "('h, 'img) runtime \<Rightarrow> 'img node \<Rightarrow> 'img yolo_result \<Rightarrow> 'img" where
  "annotated_frame w self result \<equiv> draw_fps w (tracked w self) (plot result)"

subsection \<open>Concrete inputs\<close>

text \<open>A small world to run the node in: headers are pairs (id, time), a raster is the
  byte list itself; the decoder raises on the empty buffer, returns \<open>None\<close> for bytes
  that do not start like a JPEG file and the raster otherwise; the encoder and the
  publisher succeed.\<close>

definition demo_names :: "int \<rightharpoonup> string" where
  "demo_names = [0 \<mapsto> ''plane'', 1 \<mapsto> ''ship'', 2 \<mapsto> ''harbor'']"

definition demo_obb :: raw_obb where
  "demo_obb = \<lparr> cls = 2, conf = 0.83, xywhr = (50, 60, 20, 10, 0.3) \<rparr>"

definition stray_obb :: raw_obb where
  "stray_obb = \<lparr> cls = 5, conf = 0.9, xywhr = (1, 2, 3, 4, 0) \<rparr>"

text \<open>A detector that finds the given boxes in every image and drops those below the
  threshold it is called with. Called with \<open>None\<close> it works on a picture of its own.\<close>

definition sample_image :: bytes where
  "sample_image = [255, 216, 0]"

definition detector :: "raw_obb list \<Rightarrow> bytes yolo" where
  "detector found =
     \<lparr> names = demo_names,
       predict = (\<lambda>img c.
         Inr [\<lparr> obb = Some (filter (\<lambda>ob. c \<le> conf ob) found),
                plot = (case img of Some raster \<Rightarrow> raster | None \<Rightarrow> sample_image) \<rparr>]) \<rparr>"

text \<open>The same detector, except that it raises when it is called with \<open>None\<close>.\<close>

definition strict_detector :: "raw_obb list \<Rightarrow> bytes yolo" where
  "strict_detector found =
     \<lparr> names = demo_names,
       predict = (\<lambda>img c.
         case img of
           None \<Rightarrow> Inl (Exception ''no image'')
         | Some raster \<Rightarrow>
             Inr [\<lparr> obb = Some (filter (\<lambda>ob. c \<le> conf ob) found), plot = raster \<rparr>]) \<rparr>"

definition running_node :: "bytes yolo \<Rightarrow> bytes node" where
  "running_node m =
     \<lparr> engine_model_path = ''/models/obb.engine'',
       input_topic = ''/camera/color/image_raw/compressed'',
       obb_topic = ''/yolo_obb'',
       annotated_image_topic = ''/yolo_obb/camera/color/compressed'',
       confidence_threshold = 0.5,
       proc_prev_time = 10.2, proc_fps = 10,
       sub_prev_time = 10, sub_fps = 20,
       model = m \<rparr>"

definition demo_cv :: "(nat \<times> real, bytes) runtime" where
  "demo_cv =
     \<lparr> time_sub = 10.5, time_start = 10.5, time_end = 10.6,
       imdecode = (\<lambda>buf. if buf = [] then Inl (Exception ''empty buffer'')
                         else if take 2 buf = [255, 216] then Inr (Some buf)
                         else Inr None),
       putText = (\<lambda>img text org. img),
       format_1f = (\<lambda>x. ''0.0''),
       imencode = (\<lambda>img. Inr (True, img)),
       image_publish = (\<lambda>m. None) \<rparr>"

definition demo_msg :: "(nat \<times> real) compressed_image" where
  "demo_msg = \<lparr> header = (7, 100), format = ''jpeg'', data = [255, 216, 255] \<rparr>"

definition empty_msg :: "(nat \<times> real) compressed_image" where
  "empty_msg = \<lparr> header = (6, 99), format = ''jpeg'', data = [] \<rparr>"

text \<open>A frame whose bytes are no image.\<close>

definition garbage_msg :: "(nat \<times> real) compressed_image" where
  "garbage_msg = \<lparr> header = (8, 101), format = ''jpeg'', data = [1, 2, 3] \<rparr>"

definition demo_host :: "bytes host" where
  "demo_host =
     \<lparr> path_exists = (\<lambda>p. p = ''/models/obb.engine''),
       YOLO = (\<lambda>p. if p = ''/models/obb.engine'' then Inr (detector [demo_obb])
                    else Inl (Exception ''no such file'')),
       export = (\<lambda>m. None) \<rparr>"

definition demo_params :: launch_params where
  "demo_params =
     \<lparr> param_pt_model_path = None,
       param_engine_model_path = Some ''/models/obb.engine'',
       param_input_topic = None,
       param_obb_topic = None,
       param_annotated_image_topic = None,
       param_confidence_threshold = None \<rparr>"

text \<open>The same world with an encoder that reports failure (\<open>ret = False\<close>), and with one
  that raises.\<close>

definition no_encode_cv :: "(nat \<times> real, bytes) runtime" where
  "no_encode_cv = demo_cv\<lparr> imencode := (\<lambda>img. Inr (False, [])) \<rparr>"

definition raising_cv :: "(nat \<times> real, bytes) runtime" where
  "raising_cv = demo_cv\<lparr> imencode := (\<lambda>img. Inl (Exception ''encoder'')) \<rparr>"

text \<open>A box below the default threshold.\<close>

definition faint_obb :: raw_obb where
  "faint_obb = \<lparr> cls = 1, conf = 0.3, xywhr = (5, 6, 7, 8, 1) \<rparr>"

text \<open>The node as the constructor leaves it in this world.\<close>

definition fresh_node :: "bytes node" where
  "fresh_node =
     \<lparr> engine_model_path = ''/models/obb.engine'',
       input_topic = ''/camera/color/image_raw/compressed'',
       obb_topic = ''/yolo_obb'',
       annotated_image_topic = ''/yolo_obb/camera/color/compressed'',
       confidence_threshold = 0.5,
       proc_prev_time = 0, proc_fps = 0,
       sub_prev_time = 0, sub_fps = 0,
       model = detector [demo_obb] \<rparr>"

section \<open>Lemmas about the callback\<close>

lemmas demo_defs =
  demo_cv_def no_encode_cv_def raising_cv_def running_node_def detector_def
  strict_detector_def sample_image_def demo_obb_def stray_obb_def demo_msg_def empty_msg_def
  garbage_msg_def demo_names_def

lemmas callback_defs =
  image_callback_def publish_results_def publish_annotated_def build_detections_def
  result_plot_def to_detection_def py_int_def draw_fps_def track_sub_def track_proc_def
  Let_def

subsection \<open>The two rate trackers\<close>

lemma track_sub_fields:
  "sub_prev_time (track_sub t s) = t"
  "proc_prev_time (track_sub t s) = proc_prev_time s"
  "proc_fps (track_sub t s) = proc_fps s"
  "model (track_sub t s) = model s"
  "confidence_threshold (track_sub t s) = confidence_threshold s"
  by (simp_all add: track_sub_def Let_def)

lemma track_sub_fps:
  "sub_fps (track_sub t s) =
     (if 0 < sub_prev_time s \<and> 0 < t - sub_prev_time s
      then 0.9 * sub_fps s + 0.1 * (1 / (t - sub_prev_time s)) else sub_fps s)"
  by (simp add: track_sub_def Let_def mult.commute)

lemma track_proc_fields:
  "proc_prev_time (track_proc t s) = t"
  "sub_prev_time (track_proc t s) = sub_prev_time s"
  "sub_fps (track_proc t s) = sub_fps s"
  "model (track_proc t s) = model s"
  "confidence_threshold (track_proc t s) = confidence_threshold s"
  by (simp_all add: track_proc_def Let_def)

lemma track_proc_fps:
  "proc_fps (track_proc t s) =
     (if 0 < proc_prev_time s \<and> 0 < t - proc_prev_time s
      then 0.9 * proc_fps s + 0.1 * (1 / (t - proc_prev_time s)) else proc_fps s)"
  by (simp add: track_proc_def Let_def mult.commute)

lemma tracked_model:
  "model (tracked w s) = model s" "confidence_threshold (tracked w s) = confidence_threshold s"
  by (simp_all add: track_sub_fields track_proc_fields)

lemma track_sub_model:
  "model (track_sub t s) = model s" "confidence_threshold (track_sub t s) = confidence_threshold s"
  by (simp_all add: track_sub_fields)

subsection \<open>The labels of the plot\<close>

lemma plot_labels_None:
  "plot_labels nms obs = None \<longleftrightarrow> (\<forall>ob \<in> set obs. py_int (cls ob) \<in> dom nms)"
  by (induction obs) (auto split: option.splits)

lemma plot_labels_Some:
  "plot_labels nms obs = Some e \<Longrightarrow>
   \<exists>k. e = KeyError k \<and> k \<notin> dom nms \<and> (\<exists>ob \<in> set obs. py_int (cls ob) = k)"
  by (induction obs) (auto split: option.splits)

lemma result_plot_Inr:
  "result_plot nms result = Inr frame \<longleftrightarrow>
     frame = plot result
     \<and> (\<forall>obs. obb result = Some obs \<longrightarrow> (\<forall>ob \<in> set obs. py_int (cls ob) \<in> dom nms))"
proof (cases "obb result")
  case None
  then show ?thesis by (auto simp: result_plot_def)
next
  case (Some obs)
  show ?thesis
  proof (cases "plot_labels nms (rev obs)")
    case None
    with Some show ?thesis
      using plot_labels_None [of nms "rev obs"] by (auto simp: result_plot_def)
  next
    case (Some e)
    with \<open>obb result = Some obs\<close> show ?thesis
      using plot_labels_None [of nms "rev obs"] by (auto simp: result_plot_def)
  qed
qed

lemma result_plot_Inl:
  "result_plot nms result = Inl e \<Longrightarrow>
   \<exists>k. e = KeyError k \<and> k \<notin> dom nms"
  by (auto simp: result_plot_def split: option.splits dest: plot_labels_Some)

lemma result_plot_stray:
  assumes "obb result = Some obs" and "\<exists>ob \<in> set obs. py_int (cls ob) \<notin> dom nms"
  shows "\<exists>k. k \<notin> dom nms \<and> result_plot nms result = Inl (KeyError k)"
proof (cases "result_plot nms result")
  case (Inl e)
  then show ?thesis using result_plot_Inl by blast
next
  case (Inr frame)
  with assms show ?thesis by (auto simp: result_plot_Inr)
qed

subsection \<open>The paths through the callback\<close>

lemma callback_decode_error:
  "imdecode w (data msg) = Inl e \<Longrightarrow>
   image_callback w s msg =
     \<lparr> node_after = track_sub (time_sub w) s, published = [],
       logged = [Log ERROR ''Error decoding compressed image: '' (Some e)],
       uncaught = None \<rparr>"
  by (simp add: image_callback_def Let_def)

lemma callback_predict_error:
  "imdecode w (data msg) = Inr img \<Longrightarrow>
   predict (model s) img (confidence_threshold s) = Inl e \<Longrightarrow>
   image_callback w s msg =
     \<lparr> node_after = track_sub (time_sub w) s, published = [], logged = [],
       uncaught = Some e \<rparr>"
  by (simp add: image_callback_def Let_def track_sub_fields)

lemma callback_no_result:
  "imdecode w (data msg) = Inr img \<Longrightarrow>
   predict (model s) img (confidence_threshold s) = Inr [] \<Longrightarrow>
   image_callback w s msg =
     \<lparr> node_after = track_sub (time_sub w) s, published = [], logged = [],
       uncaught = Some IndexError \<rparr>"
  by (simp add: image_callback_def Let_def track_sub_fields)

lemma callback_plot_error:
  "imdecode w (data msg) = Inr img \<Longrightarrow>
   predict (model s) img (confidence_threshold s) = Inr (result # rest) \<Longrightarrow>
   result_plot (names (model s)) result = Inl e \<Longrightarrow>
   image_callback w s msg =
     \<lparr> node_after = track_sub (time_sub w) s, published = [], logged = [],
       uncaught = Some e \<rparr>"
  by (simp add: image_callback_def Let_def track_sub_fields)

lemma callback_result:
  assumes "imdecode w (data msg) = Inr img"
    and "predict (model s) img (confidence_threshold s) = Inr (result # rest)"
    and "result_plot (names (model s)) result = Inr frame"
  shows "image_callback w s msg =
     publish_results w (tracked w s) (header msg) result (annotated_frame w s result)"
proof -
  from assms(3) have "frame = plot result"
    by (simp add: result_plot_Inr)
  with assms show ?thesis
    by (simp add: image_callback_def Let_def track_sub_fields)
qed

lemma results_encode_failed:
  "publish_annotated w hdr frame = Encode_failed \<Longrightarrow>
   publish_results w s hdr result frame =
     \<lparr> node_after = s, published = [],
       logged = [Log ERROR ''Failed to encode annotated image.'' None], uncaught = None \<rparr>"
  by (simp add: publish_results_def)

lemma results_caught:
  "publish_annotated w hdr frame = Caught e \<Longrightarrow>
   publish_results w s hdr result frame =
     (case build_detections (names (model s)) (obb result) of
        Inl x \<Rightarrow> \<lparr> node_after = s, published = [],
                   logged = [Log ERROR ''Error publishing annotated image: '' (Some e)],
                   uncaught = Some x \<rparr>
      | Inr dets \<Rightarrow>
          \<lparr> node_after = s,
            published = [Detections \<lparr> header = hdr, detections = dets \<rparr>],
            logged = [Log ERROR ''Error publishing annotated image: '' (Some e)],
            uncaught = None \<rparr>)"
  by (simp add: publish_results_def split: sum.splits)

lemma results_image_published:
  "publish_annotated w hdr frame = Image_published m \<Longrightarrow>
   publish_results w s hdr result frame =
     (case build_detections (names (model s)) (obb result) of
        Inl x \<Rightarrow> \<lparr> node_after = s, published = [Annotated m], logged = [],
                   uncaught = Some x \<rparr>
      | Inr dets \<Rightarrow>
          \<lparr> node_after = s,
            published = [Annotated m, Detections \<lparr> header = hdr, detections = dets \<rparr>],
            logged = [], uncaught = None \<rparr>)"
  by (simp add: publish_results_def split: sum.splits)

lemma results_node_after: "node_after (publish_results w s hdr result frame) = s"
  by (simp add: publish_results_def Let_def split: image_step.splits sum.splits)

lemma annotated_header:
  "publish_annotated w hdr frame = Image_published m \<Longrightarrow> header m = hdr"
  by (auto simp: publish_annotated_def Let_def split: sum.splits if_splits option.splits)

lemma callback_node_after:
  "node_after (image_callback w s msg) = track_sub (time_sub w) s \<or>
   node_after (image_callback w s msg) = tracked w s"
  by (simp add: image_callback_def Let_def results_node_after split: sum.splits list.splits)

lemma callback_keeps_config:
  "confidence_threshold (node_after (image_callback w self msg)) = confidence_threshold self
   \<and> model (node_after (image_callback w self msg)) = model self"
  using callback_node_after [of w self msg]
  by (auto simp: track_sub_fields track_proc_fields)

text \<open>A call that publishes anything has decoded the frame, got a result from the
  detector and its plot.\<close>

lemma published_reached:
  assumes "published (image_callback w self msg) \<noteq> []"
  obtains img result rest where
    "imdecode w (data msg) = Inr img"
    "predict (model self) img (confidence_threshold self) = Inr (result # rest)"
    "result_plot (names (model self)) result = Inr (plot result)"
proof -
  from assms obtain img where img: "imdecode w (data msg) = Inr img"
    by (cases "imdecode w (data msg)") (auto simp: callback_decode_error)
  from assms img obtain results where
    rs: "predict (model self) img (confidence_threshold self) = Inr results"
    by (cases "predict (model self) img (confidence_threshold self)")
      (auto simp: callback_predict_error)
  from assms img rs obtain result rest where res: "results = result # rest"
    by (cases results) (auto simp: callback_no_result)
  from assms img rs res
  have "result_plot (names (model self)) result = Inr (plot result)"
    by (cases "result_plot (names (model self)) result")
      (auto simp: callback_plot_error result_plot_Inr)
  with img rs res that show thesis by blast
qed

subsection \<open>The detection loop\<close>

lemma to_detection_fields:
  "to_detection nms ob = Inr d \<Longrightarrow>
   class_id d = py_int (cls ob) \<and> nms (py_int (cls ob)) = Some (class_name d) \<and>
   score d = conf ob \<and>
   (x_center d, y_center d, width d, height d, angle d) = xywhr ob"
  by (auto simp: to_detection_def Let_def split: option.splits prod.splits)

lemma to_detection_known:
  "nms (py_int (cls ob)) = Some name \<Longrightarrow>
   \<exists>d. to_detection nms ob = Inr d \<and> class_name d = name \<and> class_id d = py_int (cls ob)"
  by (auto simp: to_detection_def Let_def split: prod.splits)

lemma to_detection_unknown:
  "nms (py_int (cls ob)) = None \<Longrightarrow> to_detection nms ob = Inl (KeyError (py_int (cls ob)))"
  by (simp add: to_detection_def Let_def)

lemma append_detections_Inr:
  "append_detections nms obs acc = Inr dets \<Longrightarrow>
   \<exists>new. dets = acc @ new \<and> list_all2 (\<lambda>ob d. to_detection nms ob = Inr d) obs new"
proof (induction obs arbitrary: acc)
  case Nil
  then show ?case by simp
next
  case (Cons ob obs)
  from Cons.prems obtain d where d: "to_detection nms ob = Inr d"
    and rest: "append_detections nms obs (acc @ [d]) = Inr dets"
    by (auto split: sum.splits)
  from Cons.IH [OF rest] obtain new where
    "dets = (acc @ [d]) @ new" "list_all2 (\<lambda>ob d. to_detection nms ob = Inr d) obs new"
    by blast
  with d have "dets = acc @ (d # new) \<and>
      list_all2 (\<lambda>ob d. to_detection nms ob = Inr d) (ob # obs) (d # new)"
    by simp
  then show ?case by blast
qed

lemma append_detections_known:
  "\<forall>ob \<in> set obs. py_int (cls ob) \<in> dom nms \<Longrightarrow>
   \<exists>dets. append_detections nms obs acc = Inr dets"
proof (induction obs arbitrary: acc)
  case Nil
  then show ?case by simp
next
  case (Cons ob obs)
  then obtain name where "nms (py_int (cls ob)) = Some name" by auto
  then obtain d where "to_detection nms ob = Inr d"
    using to_detection_known by blast
  with Cons show ?case by simp
qed

lemma append_detections_unknown:
  "\<exists>ob \<in> set obs. py_int (cls ob) \<notin> dom nms \<Longrightarrow>
   \<exists>k. k \<notin> dom nms \<and> append_detections nms obs acc = Inl (KeyError k)"
proof (induction obs arbitrary: acc)
  case Nil
  then show ?case by simp
next
  case (Cons ob obs)
  show ?case
  proof (cases "nms (py_int (cls ob))")
    case None
    then have "to_detection nms ob = Inl (KeyError (py_int (cls ob)))"
      by (rule to_detection_unknown)
    with None show ?thesis by (auto simp: dom_def)
  next
    case (Some name)
    then obtain d where d: "to_detection nms ob = Inr d"
      using to_detection_known by blast
    from Some Cons.prems have "\<exists>ob \<in> set obs. py_int (cls ob) \<notin> dom nms" by auto
    from Cons.IH [OF this] d show ?thesis by simp
  qed
qed

lemma build_detections_Inr:
  "build_detections nms res = Inr dets \<Longrightarrow>
   list_all2 (\<lambda>ob d. to_detection nms ob = Inr d) (case res of None \<Rightarrow> [] | Some obs \<Rightarrow> obs) dets"
  by (auto simp: build_detections_def split: option.splits dest: append_detections_Inr)

lemma build_detections_known:
  "\<forall>obs. res = Some obs \<longrightarrow> (\<forall>ob \<in> set obs. py_int (cls ob) \<in> dom nms) \<Longrightarrow>
   \<exists>dets. build_detections nms res = Inr dets"
  by (cases res) (simp_all add: build_detections_def append_detections_known)

lemma build_detections_plotted:
  "result_plot nms result = Inr frame \<Longrightarrow> \<exists>dets. build_detections nms (obb result) = Inr dets"
  by (rule build_detections_known) (simp add: result_plot_Inr)

lemma obb_converted:
  "list_all2 (\<lambda>ob d. to_detection nms ob = Inr d) obs dets \<Longrightarrow> ob \<in> set obs \<Longrightarrow>
   \<exists>d. to_detection nms ob = Inr d"
  by (induction rule: list_all2_induct) auto

lemma build_detections_plot:
  assumes "build_detections nms (obb result) = Inr dets"
  shows "result_plot nms result = Inr (plot result)"
proof -
  have "py_int (cls ob) \<in> dom nms" if "obb result = Some obs" "ob \<in> set obs" for obs ob
  proof -
    from build_detections_Inr [OF assms] that(1)
    have "list_all2 (\<lambda>ob d. to_detection nms ob = Inr d) obs dets" by simp
    from obb_converted [OF this that(2)] obtain d where "to_detection nms ob = Inr d" ..
    from to_detection_fields [OF this] show ?thesis by (auto simp: dom_def)
  qed
  then show ?thesis by (simp add: result_plot_Inr)
qed

text \<open>What one call can publish: nothing, the batch alone, or the image followed by the
  batch.\<close>

lemma published_shape:
  "published (image_callback w self msg) = []
   \<or> (\<exists>dets. published (image_callback w self msg)
          = [Detections \<lparr> header = header msg, detections = dets \<rparr>])
   \<or> (\<exists>a dets. published (image_callback w self msg)
          = [Annotated a, Detections \<lparr> header = header msg, detections = dets \<rparr>]
          \<and> header a = header msg)"
proof (cases "published (image_callback w self msg) = []")
  case True
  then show ?thesis by simp
next
  case False
  then obtain img result rest where img: "imdecode w (data msg) = Inr img"
    and res: "predict (model self) img (confidence_threshold self) = Inr (result # rest)"
    and plt: "result_plot (names (model self)) result = Inr (plot result)"
    by (rule published_reached)
  have cb: "image_callback w self msg =
      publish_results w (tracked w self) (header msg) result (annotated_frame w self result)"
    using img res plt by (rule callback_result)
  from build_detections_plotted [OF plt]
  obtain dets where dets: "build_detections (names (model self)) (obb result) = Inr dets" ..
  show ?thesis
  proof (cases "publish_annotated w (header msg) (annotated_frame w self result)")
    case (Image_published m)
    with dets show ?thesis
      unfolding cb by (simp add: results_image_published annotated_header tracked_model)
  next
    case Encode_failed
    then show ?thesis unfolding cb by (simp add: results_encode_failed)
  next
    case (Caught e)
    with dets show ?thesis
      unfolding cb by (simp add: results_caught tracked_model)
  qed
qed

subsection \<open>The annotated image step\<close>

lemma publish_annotated_Caught:
  "publish_annotated w hdr frame = Caught e \<longleftrightarrow>
     imencode w frame = Inl e
     \<or> (\<exists>buf. imencode w frame = Inr (True, buf)
           \<and> image_publish w \<lparr> header = hdr, format = ''jpeg'', data = buf \<rparr> = Some e)"
  by (auto simp: publish_annotated_def Let_def split: sum.splits option.splits)

lemma publish_annotated_Encode_failed:
  "publish_annotated w hdr frame = Encode_failed \<longleftrightarrow> (\<exists>buf. imencode w frame = Inr (False, buf))"
  by (auto simp: publish_annotated_def Let_def split: sum.splits option.splits)

lemma publish_annotated_Image_published:
  "imencode w frame = Inr (True, buf) \<Longrightarrow>
   image_publish w \<lparr> header = hdr, format = ''jpeg'', data = buf \<rparr> = None \<Longrightarrow>
   publish_annotated w hdr frame
     = Image_published \<lparr> header = hdr, format = ''jpeg'', data = buf \<rparr>"
  by (simp add: publish_annotated_def Let_def)

subsection \<open>The detection batch of a cycle\<close>

lemma published_batch:
  assumes "imdecode w (data msg) = Inr img"
    and "predict (model self) img (confidence_threshold self) = Inr (result # rest)"
    and "Detections b \<in> set (published (image_callback w self msg))"
  shows "\<exists>dets. build_detections (names (model self)) (obb result) = Inr dets
           \<and> b = \<lparr> header = header msg, detections = dets \<rparr>"
proof (cases "result_plot (names (model self)) result")
  case (Inl e)
  with assms show ?thesis by (simp add: callback_plot_error)
next
  case (Inr frame)
  have cb: "image_callback w self msg =
      publish_results w (tracked w self) (header msg) result (annotated_frame w self result)"
    using assms(1,2) Inr by (rule callback_result)
  show ?thesis
  proof (cases "publish_annotated w (header msg) (annotated_frame w self result)")
    case (Image_published m)
    with assms(3) show ?thesis
      unfolding cb
      by (cases "build_detections (names (model self)) (obb result)")
        (simp_all add: results_image_published tracked_model)
  next
    case Encode_failed
    with assms(3) show ?thesis unfolding cb by (simp add: results_encode_failed)
  next
    case (Caught e)
    with assms(3) show ?thesis
      unfolding cb
      by (cases "build_detections (names (model self)) (obb result)")
        (simp_all add: results_caught tracked_model)
  qed
qed

lemma batch_published:
  assumes "imdecode w (data msg) = Inr img"
    and "predict (model self) img (confidence_threshold self) = Inr (result # rest)"
    and "build_detections (names (model self)) (obb result) = Inr dets"
    and "publish_annotated w (header msg) (annotated_frame w self result) \<noteq> Encode_failed"
  shows "Detections \<lparr> header = header msg, detections = dets \<rparr>
           \<in> set (published (image_callback w self msg))
         \<and> uncaught (image_callback w self msg) = None"
proof -
  have cb: "image_callback w self msg =
      publish_results w (tracked w self) (header msg) result (annotated_frame w self result)"
    using assms(1,2) build_detections_plot [OF assms(3)] by (rule callback_result)
  show ?thesis
  proof (cases "publish_annotated w (header msg) (annotated_frame w self result)")
    case (Image_published m)
    with assms(3) show ?thesis
      unfolding cb by (simp add: results_image_published tracked_model)
  next
    case Encode_failed
    with assms(4) show ?thesis by simp
  next
    case (Caught e)
    with assms(3) show ?thesis
      unfolding cb by (simp add: results_caught tracked_model)
  qed
qed

lemma to_detection_name:
  "to_detection nms ob = Inr d \<Longrightarrow> nms (class_id d) = Some (class_name d)"
  using to_detection_fields [of nms ob d] by simp

lemma detection_source:
  "list_all2 (\<lambda>ob d. to_detection nms ob = Inr d) obs dets \<Longrightarrow> d \<in> set dets \<Longrightarrow>
   \<exists>ob \<in> set obs. to_detection nms ob = Inr d"
  by (induction rule: list_all2_induct) auto

lemma quintuples_copied:
  "list_all2 (\<lambda>ob d. to_detection nms ob = Inr d) obs dets \<Longrightarrow>
   map (\<lambda>d. (x_center d, y_center d, width d, height d, angle d)) dets = map xywhr obs
   \<and> map score dets = map conf obs
   \<and> map class_id dets = map (\<lambda>ob. py_int (cls ob)) obs"
  by (induction rule: list_all2_induct) (auto dest: to_detection_fields)

lemma build_detections_unknown:
  "res = Some obs \<Longrightarrow> \<exists>ob \<in> set obs. py_int (cls ob) \<notin> dom nms \<Longrightarrow>
   \<exists>k. k \<notin> dom nms \<and> build_detections nms res = Inl (KeyError k)"
  by (simp add: build_detections_def append_detections_unknown)

text \<open>A class id that the table does not have: the plot raises, and nothing is published.\<close>

lemma stray_class_raises:
  assumes "imdecode w (data msg) = Inr img"
    and "predict (model self) img (confidence_threshold self) = Inr (result # rest)"
    and "obb result = Some obs"
    and "\<exists>ob \<in> set obs. py_int (cls ob) \<notin> dom (names (model self))"
  shows "\<exists>k. k \<notin> dom (names (model self))
           \<and> uncaught (image_callback w self msg) = Some (KeyError k)
           \<and> published (image_callback w self msg) = []"
proof -
  from result_plot_stray [OF assms(3,4)]
  obtain k where "k \<notin> dom (names (model self))"
    and "result_plot (names (model self)) result = Inl (KeyError k)"
    by blast
  with callback_plot_error [OF assms(1,2) this(2)] show ?thesis by simp
qed

subsection \<open>The constructor\<close>

lemma init_Serving:
  "init h p = Serving s logs \<Longrightarrow>
   sub_prev_time s = 0 \<and> sub_fps s = 0 \<and> proc_prev_time s = 0 \<and> proc_fps s = 0
   \<and> confidence_threshold s = get_param (param_confidence_threshold p) 0.5"
  by (auto simp: init_def load_engine_def Let_def split: if_splits sum.splits option.splits)

lemma init_demo:
  "init demo_host demo_params =
     Serving fresh_node
       [Log INFO ''Loading TensorRT engine from /models/obb.engine'' None,
        Log INFO ''Ultralytics YOLO-OBB model loaded successfully.'' None,
        Log INFO ''YOLO OBB Ultralytics node initialized and ready.'' None]"
  by (simp add: init_def load_engine_def get_param_def demo_host_def demo_params_def
      fresh_node_def Let_def)

section \<open>The claims\<close>

subsection \<open>C1: a failed re-encode and the detection batch\<close>

text \<open>
  C1 says that when re-encoding the annotated raster fails, only the annotated image is
  skipped and the detection batch of that frame is still published. The code handles the
  encoder's false flag with \<open>return\<close> on line 110, inside the \<open>try\<close> block, so the
  callback ends there: on a frame that decodes, has one detection above the threshold and
  whose \<open>imencode\<close> returns \<open>ret = False\<close>, nothing at all is published, the failure is
  logged and no exception leaves the callback. (The \<open>except\<close> branch of the same block,
  lines 113 and 114, does go on to the batch.)
\<close>

theorem encode_false_return_drops_batch:
  "published (image_callback no_encode_cv (running_node (detector [demo_obb])) demo_msg) = []
   \<and> logged (image_callback no_encode_cv (running_node (detector [demo_obb])) demo_msg)
       = [Log ERROR ''Failed to encode annotated image.'' None]
   \<and> uncaught (image_callback no_encode_cv (running_node (detector [demo_obb])) demo_msg) = None"
  by (simp add: callback_defs demo_defs)

subsection \<open>C2: the update law of the two rate trackers\<close>

text \<open>
  C2: with previous rate \<open>r\<close>, previous timestamp \<open>t_prev > 0\<close> and current timestamp
  \<open>t\<close>, the new rate is \<open>0.9 * r + 0.1 * (1 / d)\<close> when \<open>d = t - t_prev\<close> is positive
  and \<open>r\<close> when \<open>d \<le> 0\<close>; in both cases the stored timestamp becomes \<open>t\<close>. The
  arrival tracker is updated in every call; the processing tracker is updated in every
  call that reaches line 90, that is when the frame decodes, the detector returns a
  result and \<open>result.plot()\<close> returns.
\<close>

theorem rate_tracker_update:
  "(0 < sub_prev_time self \<longrightarrow>
      sub_prev_time (node_after (image_callback w self msg)) = time_sub w
      \<and> (0 < time_sub w - sub_prev_time self \<longrightarrow>
           sub_fps (node_after (image_callback w self msg))
             = 0.9 * sub_fps self + 0.1 * (1 / (time_sub w - sub_prev_time self)))
      \<and> (time_sub w - sub_prev_time self \<le> 0 \<longrightarrow>
           sub_fps (node_after (image_callback w self msg)) = sub_fps self))
   \<and> (0 < proc_prev_time self \<longrightarrow>
      imdecode w (data msg) = Inr img \<longrightarrow>
      predict (model self) img (confidence_threshold self) = Inr (result # rest) \<longrightarrow>
      result_plot (names (model self)) result = Inr frame \<longrightarrow>
      proc_prev_time (node_after (image_callback w self msg)) = time_end w
      \<and> (0 < time_end w - proc_prev_time self \<longrightarrow>
           proc_fps (node_after (image_callback w self msg))
             = 0.9 * proc_fps self + 0.1 * (1 / (time_end w - proc_prev_time self)))
      \<and> (time_end w - proc_prev_time self \<le> 0 \<longrightarrow>
           proc_fps (node_after (image_callback w self msg)) = proc_fps self))"
proof -
  have sub: "sub_prev_time (node_after (image_callback w self msg)) = time_sub w
      \<and> sub_fps (node_after (image_callback w self msg)) = sub_fps (track_sub (time_sub w) self)"
    using callback_node_after [of w self msg]
    by (auto simp: track_sub_fields track_proc_fields)
  have proc: "node_after (image_callback w self msg) = tracked w self"
    if "imdecode w (data msg) = Inr img"
      "predict (model self) img (confidence_threshold self) = Inr (result # rest)"
      "result_plot (names (model self)) result = Inr frame"
    using callback_result [OF that] by (simp add: results_node_after)
  show ?thesis
    using sub proc
    by (auto simp: track_sub_fps track_proc_fps track_sub_fields track_proc_fields)
qed

text \<open>At a frame that arrives 0.5 s after the previous one and is done 0.4 s after the
  previous cycle: 0.9 * 20 + 0.1 * 2 = 18.2 and 0.9 * 10 + 0.1 * 2.5 = 9.25.\<close>

theorem rate_tracker_update_witness:
  "0 < sub_prev_time (running_node (detector [demo_obb]))
   \<and> 0 < proc_prev_time (running_node (detector [demo_obb]))
   \<and> imdecode demo_cv (data demo_msg) = Inr (Some [255, 216, 255])
   \<and> predict (model (running_node (detector [demo_obb]))) (Some [255, 216, 255])
         (confidence_threshold (running_node (detector [demo_obb])))
       = Inr [\<lparr> obb = Some [demo_obb], plot = [255, 216, 255] \<rparr>]
   \<and> result_plot (names (model (running_node (detector [demo_obb]))))
         \<lparr> obb = Some [demo_obb], plot = [255, 216, 255::nat] \<rparr> = Inr [255, 216, 255]
   \<and> sub_prev_time (node_after
         (image_callback demo_cv (running_node (detector [demo_obb])) demo_msg)) = 10.5
   \<and> sub_fps (node_after
         (image_callback demo_cv (running_node (detector [demo_obb])) demo_msg)) = 18.2
   \<and> proc_prev_time (node_after
         (image_callback demo_cv (running_node (detector [demo_obb])) demo_msg)) = 10.6
   \<and> proc_fps (node_after
         (image_callback demo_cv (running_node (detector [demo_obb])) demo_msg)) = 9.25"
  using rate_tracker_update [of "running_node (detector [demo_obb])" demo_cv demo_msg
      "Some [255, 216, 255]" "\<lparr> obb = Some [demo_obb], plot = [255, 216, 255] \<rparr>" "[]"
      "[255, 216, 255]"]
  by (simp add: demo_defs result_plot_def py_int_def)

subsection \<open>C3: the batch of a frame without detections\<close>

text \<open>
  C3 says that every decoded frame whose detector output has no detections still gets a
  detection batch, with an empty sequence. On such a frame whose \<open>imencode\<close> returns
  \<open>ret = False\<close> the callback returns on line 110 and publishes nothing; with an encoder
  that succeeds, the same frame gives the image and a batch with no detections.
\<close>

theorem no_detections_batch_dropped_on_encode_false:
  "published (image_callback no_encode_cv (running_node (detector [])) demo_msg) = []
   \<and> published (image_callback demo_cv (running_node (detector [])) demo_msg)
       = [Annotated \<lparr> header = (7, 100), format = ''jpeg'', data = [255, 216, 255] \<rparr>,
          Detections \<lparr> header = (7, 100), detections = [] \<rparr>]"
  by (simp add: callback_defs demo_defs)

subsection \<open>C4: the headers of the two messages, and image and batch as a pair\<close>

text \<open>
  C4: every message that a cycle publishes, the annotated image and the detection batch,
  carries the header of the input frame, so the two headers of a cycle are identical;
  and an annotated image that is published is followed by exactly one detection batch
  of the same cycle. (Once \<open>result.plot()\<close> has returned on line 87, every class id of
  the result is in the table \<open>names\<close>, so the loop of lines 122 to 138 cannot fail
  between the publication of the image and that of the batch.)
\<close>

theorem headers_copied_and_paired:
  "(\<forall>a. Annotated a \<in> set (published (image_callback w self msg)) \<longrightarrow> header a = header msg)
   \<and> (\<forall>b. Detections b \<in> set (published (image_callback w self msg)) \<longrightarrow> header b = header msg)
   \<and> (\<forall>a. Annotated a \<in> set (published (image_callback w self msg)) \<longrightarrow>
         (\<exists>b. published (image_callback w self msg) = [Annotated a, Detections b]
              \<and> header b = header a))"
proof (intro conjI allI impI)
  fix a assume "Annotated a \<in> set (published (image_callback w self msg))"
  then show "header a = header msg"
    using published_shape [of w self msg] by auto
next
  fix b assume "Detections b \<in> set (published (image_callback w self msg))"
  then show "header b = header msg"
    using published_shape [of w self msg] by auto
next
  fix a assume "Annotated a \<in> set (published (image_callback w self msg))"
  then show "\<exists>b. published (image_callback w self msg) = [Annotated a, Detections b]
            \<and> header b = header a"
    using published_shape [of w self msg] by auto
qed

theorem headers_copied_and_paired_witness:
  "Annotated \<lparr> header = (7, 100), format = ''jpeg'', data = [255, 216, 255] \<rparr>
     \<in> set (published (image_callback demo_cv (running_node (detector [demo_obb])) demo_msg))
   \<and> (\<exists>b. published (image_callback demo_cv (running_node (detector [demo_obb])) demo_msg)
            = [Annotated \<lparr> header = (7, 100), format = ''jpeg'', data = [255, 216, 255] \<rparr>,
               Detections b]
          \<and> header b = (7, 100))"
proof -
  let ?a = "\<lparr> header = (7::nat, 100::real), format = ''jpeg'', data = [255, 216, 255] \<rparr>"
  have pub: "Annotated ?a
     \<in> set (published (image_callback demo_cv (running_node (detector [demo_obb])) demo_msg))"
    by (simp add: callback_defs demo_defs)
  from headers_copied_and_paired [of demo_cv "running_node (detector [demo_obb])" demo_msg,
      THEN conjunct2, THEN conjunct2, rule_format, OF pub]
  have "\<exists>b. published (image_callback demo_cv (running_node (detector [demo_obb])) demo_msg)
            = [Annotated ?a, Detections b] \<and> header b = header ?a" .
  with pub show ?thesis by simp
qed

subsection \<open>C5: the first frame after startup\<close>

text \<open>
  C5: on the first frame that a node processes after its constructor has finished, both
  rate estimates stay at their initial value 0: the constructor sets both previous
  timestamps to 0, and the updates on lines 68 and 91 run only for a previous timestamp
  above 0. This holds on every path through the callback, also when the frame does not
  decode.
\<close>

theorem first_frame_rates_zero:
  "init h p = Serving self logs \<Longrightarrow>
   sub_fps (node_after (image_callback w self msg)) = 0
   \<and> proc_fps (node_after (image_callback w self msg)) = 0"
  using callback_node_after [of w self msg] init_Serving [of h p self logs]
  by (auto simp: track_sub_fps track_proc_fps track_sub_fields track_proc_fields)

theorem first_frame_rates_zero_witness:
  "init demo_host demo_params =
     Serving fresh_node
       [Log INFO ''Loading TensorRT engine from /models/obb.engine'' None,
        Log INFO ''Ultralytics YOLO-OBB model loaded successfully.'' None,
        Log INFO ''YOLO OBB Ultralytics node initialized and ready.'' None]
   \<and> sub_fps (node_after (image_callback demo_cv fresh_node demo_msg)) = 0
   \<and> proc_fps (node_after (image_callback demo_cv fresh_node demo_msg)) = 0"
  using first_frame_rates_zero [OF init_demo, of demo_cv demo_msg] init_demo by simp

subsection \<open>C6: a frame that does not decode\<close>

text \<open>
  C6 says that for every frame whose payload fails to decode (malformed or unsupported
  bytes) the failure is logged, the cycle aborts and nothing is published. The handler
  of lines 78 to 80 does that for an exception of the decode step, as for the empty
  buffer here. For bytes that are no image \<open>cv2.imdecode\<close> raises nothing and returns
  \<open>None\<close>, which line 77 does not test: the callback logs nothing and goes on to call
  the detector with \<open>None\<close> on line 84. With a detector that then works on a picture of
  its own, an annotated image and a detection batch are published under the header of
  the undecodable frame; with a detector that raises, the exception leaves the callback.
\<close>

theorem undecodable_frame_not_caught:
  "logged (image_callback demo_cv (running_node (detector [demo_obb])) empty_msg)
     = [Log ERROR ''Error decoding compressed image: '' (Some (Exception ''empty buffer''))]
   \<and> published (image_callback demo_cv (running_node (detector [demo_obb])) empty_msg) = []
   \<and> imdecode demo_cv (data garbage_msg) = Inr None
   \<and> logged (image_callback demo_cv (running_node (detector [demo_obb])) garbage_msg) = []
   \<and> published (image_callback demo_cv (running_node (detector [demo_obb])) garbage_msg)
     = [Annotated \<lparr> header = (8, 101), format = ''jpeg'', data = [255, 216, 0] \<rparr>,
        Detections \<lparr> header = (8, 101),
          detections = [\<lparr> class_id = 2, class_name = ''harbor'', score = 0.83,
            x_center = 50, y_center = 60, width = 20, height = 10, angle = 0.3 \<rparr>] \<rparr>]
   \<and> logged (image_callback demo_cv (running_node (strict_detector [demo_obb])) garbage_msg)
     = []
   \<and> published (image_callback demo_cv (running_node (strict_detector [demo_obb])) garbage_msg)
     = []
   \<and> uncaught (image_callback demo_cv (running_node (strict_detector [demo_obb])) garbage_msg)
     = Some (Exception ''no image'')"
  by (simp add: callback_defs demo_defs)

subsection \<open>C7: the end-to-end scenario\<close>

text \<open>
  C7: for an input frame with header (7, 100.0), threshold 0.5 and the single detector
  result \<open>cls = 2\<close>, \<open>conf = 0.83\<close>, \<open>xywhr = [50, 60, 20, 10, 0.3]\<close>, every
  detection batch that the cycle publishes has the header (7, 100.0) and exactly the one
  detection with class id 2, the name that the table has for 2, score 0.83 and the box
  50, 60, 20, 10, 0.3; and that batch is published whenever \<open>imencode\<close> does not return the
  false flag. In general, the boxes of a published batch are the detector's rows
  \<open>xywhr\<close>, in the detector's order and unchanged.
\<close>

theorem end_to_end_scenario:
  fixes w :: "(nat \<times> real, 'img) runtime"
  shows
  "(header msg = (7, 100) \<longrightarrow>
    confidence_threshold self = 0.5 \<longrightarrow>
    imdecode w (data msg) = Inr img \<longrightarrow>
    predict (model self) img 0.5 = Inr (result # rest) \<longrightarrow>
    obb result = Some [\<lparr> cls = 2, conf = 0.83, xywhr = (50, 60, 20, 10, 0.3) \<rparr>] \<longrightarrow>
    names (model self) 2 = Some name \<longrightarrow>
      (\<forall>b. Detections b \<in> set (published (image_callback w self msg)) \<longrightarrow>
         b = \<lparr> header = (7, 100),
               detections = [\<lparr> class_id = 2, class_name = name, score = 0.83,
                 x_center = 50, y_center = 60, width = 20, height = 10, angle = 0.3 \<rparr>] \<rparr>)
      \<and> ((\<forall>buf. imencode w (annotated_frame w self result) \<noteq> Inr (False, buf)) \<longrightarrow>
           Detections \<lparr> header = (7, 100),
               detections = [\<lparr> class_id = 2, class_name = name, score = 0.83,
                 x_center = 50, y_center = 60, width = 20, height = 10, angle = 0.3 \<rparr>] \<rparr>
             \<in> set (published (image_callback w self msg))))
   \<and> (\<forall>img' result' rest' b.
         imdecode w (data msg) = Inr img' \<longrightarrow>
         predict (model self) img' (confidence_threshold self) = Inr (result' # rest') \<longrightarrow>
         Detections b \<in> set (published (image_callback w self msg)) \<longrightarrow>
         map (\<lambda>d. (x_center d, y_center d, width d, height d, angle d)) (detections b)
           = map xywhr (case obb result' of None \<Rightarrow> [] | Some obs \<Rightarrow> obs))"
proof (intro conjI impI allI)
  fix b
  assume h: "header msg = (7, 100)" and c: "confidence_threshold self = 0.5"
    and img: "imdecode w (data msg) = Inr img"
    and res: "predict (model self) img 0.5 = Inr (result # rest)"
    and one: "obb result = Some [\<lparr> cls = 2, conf = 0.83, xywhr = (50, 60, 20, 10, 0.3) \<rparr>]"
    and name: "names (model self) 2 = Some name"
    and b: "Detections b \<in> set (published (image_callback w self msg))"
  have res': "predict (model self) img (confidence_threshold self) = Inr (result # rest)"
    unfolding c by (rule res)
  from published_batch [OF img res' b]
  obtain dets where dets: "build_detections (names (model self)) (obb result) = Inr dets"
    and b_eq: "b = \<lparr> header = header msg, detections = dets \<rparr>"
    by blast
  from one name have
    "build_detections (names (model self)) (obb result)
       = Inr [\<lparr> class_id = 2, class_name = name, score = 0.83,
                 x_center = 50, y_center = 60, width = 20, height = 10, angle = 0.3 \<rparr>]"
    by (simp add: build_detections_def to_detection_def py_int_def Let_def)
  with dets have "dets = [\<lparr> class_id = 2, class_name = name, score = 0.83,
                 x_center = 50, y_center = 60, width = 20, height = 10, angle = 0.3 \<rparr>]"
    by simp
  with b_eq h
  show "b = \<lparr> header = (7, 100),
               detections = [\<lparr> class_id = 2, class_name = name, score = 0.83,
                 x_center = 50, y_center = 60, width = 20, height = 10, angle = 0.3 \<rparr>] \<rparr>"
    by simp
next
  assume h: "header msg = (7, 100)" and c: "confidence_threshold self = 0.5"
    and img: "imdecode w (data msg) = Inr img"
    and res: "predict (model self) img 0.5 = Inr (result # rest)"
    and one: "obb result = Some [\<lparr> cls = 2, conf = 0.83, xywhr = (50, 60, 20, 10, 0.3) \<rparr>]"
    and name: "names (model self) 2 = Some name"
    and enc: "\<forall>buf. imencode w (annotated_frame w self result) \<noteq> Inr (False, buf)"
  from one name have
    "build_detections (names (model self)) (obb result)
       = Inr [\<lparr> class_id = 2, class_name = name, score = 0.83,
                 x_center = 50, y_center = 60, width = 20, height = 10, angle = 0.3 \<rparr>]"
    by (simp add: build_detections_def to_detection_def py_int_def Let_def)
  moreover from enc
  have "publish_annotated w (header msg) (annotated_frame w self result) \<noteq> Encode_failed"
    by (simp add: publish_annotated_Encode_failed)
  ultimately show "Detections \<lparr> header = (7, 100),
               detections = [\<lparr> class_id = 2, class_name = name, score = 0.83,
                 x_center = 50, y_center = 60, width = 20, height = 10, angle = 0.3 \<rparr>] \<rparr>
             \<in> set (published (image_callback w self msg))"
    using batch_published [OF img, of self result rest] res c h by simp
next
  fix img' result' rest' b
  assume img: "imdecode w (data msg) = Inr img'"
    and res: "predict (model self) img' (confidence_threshold self) = Inr (result' # rest')"
    and b: "Detections b \<in> set (published (image_callback w self msg))"
  from published_batch [OF img res b]
  obtain dets where dets: "build_detections (names (model self)) (obb result') = Inr dets"
    and b_eq: "b = \<lparr> header = header msg, detections = dets \<rparr>"
    by blast
  from quintuples_copied [OF build_detections_Inr [OF dets]] b_eq
  show "map (\<lambda>d. (x_center d, y_center d, width d, height d, angle d)) (detections b)
           = map xywhr (case obb result' of None \<Rightarrow> [] | Some obs \<Rightarrow> obs)"
    by simp
qed

theorem end_to_end_scenario_witness:
  "header demo_msg = (7, 100)
   \<and> confidence_threshold (running_node (detector [demo_obb])) = 0.5
   \<and> imdecode demo_cv (data demo_msg) = Inr (Some [255, 216, 255])
   \<and> predict (model (running_node (detector [demo_obb]))) (Some [255, 216, 255]) 0.5
       = Inr [\<lparr> obb = Some [\<lparr> cls = 2, conf = 0.83, xywhr = (50, 60, 20, 10, 0.3) \<rparr>],
               plot = [255, 216, 255] \<rparr>]
   \<and> names (model (running_node (detector [demo_obb]))) 2 = Some ''harbor''
   \<and> Detections \<lparr> header = (7, 100),
               detections = [\<lparr> class_id = 2, class_name = ''harbor'', score = 0.83,
                 x_center = 50, y_center = 60, width = 20, height = 10, angle = 0.3 \<rparr>] \<rparr>
        \<in> set (published (image_callback demo_cv (running_node (detector [demo_obb])) demo_msg))"
proof -
  let ?r = "\<lparr> obb = Some [\<lparr> cls = 2, conf = 0.83, xywhr = (50, 60, 20, 10, 0.3) \<rparr>],
               plot = [255, 216, 255::nat] \<rparr>"
  have 1: "header demo_msg = (7, 100)"
    and 2: "confidence_threshold (running_node (detector [demo_obb])) = 0.5"
    and 3: "imdecode demo_cv (data demo_msg) = Inr (Some [255, 216, 255])"
    and 4: "predict (model (running_node (detector [demo_obb]))) (Some [255, 216, 255]) 0.5
       = Inr [?r]"
    and 5: "obb ?r = Some [\<lparr> cls = 2, conf = 0.83, xywhr = (50, 60, 20, 10, 0.3) \<rparr>]"
    and 6: "names (model (running_node (detector [demo_obb]))) 2 = Some ''harbor''"
    and 7: "\<forall>buf. imencode demo_cv
        (annotated_frame demo_cv (running_node (detector [demo_obb])) ?r) \<noteq> Inr (False, buf)"
    by (simp_all add: demo_defs)
  note inst = end_to_end_scenario [of demo_msg "running_node (detector [demo_obb])" demo_cv
      "Some [255, 216, 255]"
      ?r "[]" "''harbor''"]
  from inst [THEN conjunct1, rule_format, OF 1 2 3 4 5 6, THEN conjunct2, THEN mp, OF 7]
  have "Detections \<lparr> header = (7, 100),
               detections = [\<lparr> class_id = 2, class_name = ''harbor'', score = 0.83,
                 x_center = 50, y_center = 60, width = 20, height = 10, angle = 0.3 \<rparr>] \<rparr>
        \<in> set (published (image_callback demo_cv (running_node (detector [demo_obb])) demo_msg))" .
  with 1 2 3 4 6 show ?thesis by (simp del: set_simps)
qed

subsection \<open>C8: the class name of a detection\<close>

text \<open>
  C8: the class name is looked up in the table \<open>names\<close> with the int-cast class id and
  nothing else: for a class id that is a key of the table the detection gets the table's
  entry, and so does every detection of a published batch; for a class id that is not a
  key the lookup raises \<open>KeyError\<close>, no fallback name is substituted, the exception
  leaves the callback and no batch is published for the frame. (In the callback the
  first such lookup of a frame is the one that \<open>result.plot()\<close> makes on line 87, in the
  same table.)
\<close>

theorem class_name_lookup:
  "(nms (py_int (cls ob)) = Some name \<longrightarrow>
      (\<exists>d. to_detection nms ob = Inr d \<and> class_id d = py_int (cls ob) \<and> class_name d = name))
   \<and> (nms (py_int (cls ob)) = None \<longrightarrow>
      to_detection nms ob = Inl (KeyError (py_int (cls ob))))
   \<and> (\<forall>img result rest b.
         imdecode w (data msg) = Inr img \<longrightarrow>
         predict (model self) img (confidence_threshold self) = Inr (result # rest) \<longrightarrow>
         Detections b \<in> set (published (image_callback w self msg)) \<longrightarrow>
         (\<forall>d \<in> set (detections b). names (model self) (class_id d) = Some (class_name d)))
   \<and> (\<forall>img result rest obs.
         imdecode w (data msg) = Inr img \<longrightarrow>
         predict (model self) img (confidence_threshold self) = Inr (result # rest) \<longrightarrow>
         obb result = Some obs \<longrightarrow>
         (\<exists>ob' \<in> set obs. py_int (cls ob') \<notin> dom (names (model self))) \<longrightarrow>
         (\<forall>buf. imencode w (annotated_frame w self result) \<noteq> Inr (False, buf)) \<longrightarrow>
         (\<exists>k. k \<notin> dom (names (model self))
              \<and> uncaught (image_callback w self msg) = Some (KeyError k))
         \<and> (\<forall>b. Detections b \<notin> set (published (image_callback w self msg))))"
proof (intro conjI allI impI)
  assume "nms (py_int (cls ob)) = Some name"
  then show "\<exists>d. to_detection nms ob = Inr d \<and> class_id d = py_int (cls ob) \<and> class_name d = name"
    using to_detection_known by blast
next
  assume "nms (py_int (cls ob)) = None"
  then show "to_detection nms ob = Inl (KeyError (py_int (cls ob)))"
    by (rule to_detection_unknown)
next
  fix img result rest b
  assume img: "imdecode w (data msg) = Inr img"
    and res: "predict (model self) img (confidence_threshold self) = Inr (result # rest)"
    and b: "Detections b \<in> set (published (image_callback w self msg))"
  from published_batch [OF img res b]
  obtain dets where dets: "build_detections (names (model self)) (obb result) = Inr dets"
    and b_eq: "b = \<lparr> header = header msg, detections = dets \<rparr>"
    by blast
  from build_detections_Inr [OF dets]
  have "\<forall>d \<in> set dets. \<exists>ob. to_detection (names (model self)) ob = Inr d"
    by (blast dest: detection_source)
  then have "\<forall>d \<in> set dets. names (model self) (class_id d) = Some (class_name d)"
    by (blast dest: to_detection_name)
  with b_eq show "\<forall>d \<in> set (detections b). names (model self) (class_id d) = Some (class_name d)"
    by simp
next
  fix img result rest obs
  assume img: "imdecode w (data msg) = Inr img"
    and res: "predict (model self) img (confidence_threshold self) = Inr (result # rest)"
    and obs: "obb result = Some obs"
    and stray: "\<exists>ob' \<in> set obs. py_int (cls ob') \<notin> dom (names (model self))"
    and enc: "\<forall>buf. imencode w (annotated_frame w self result) \<noteq> Inr (False, buf)"
  from stray_class_raises [OF img res obs stray]
  show "\<exists>k. k \<notin> dom (names (model self))
              \<and> uncaught (image_callback w self msg) = Some (KeyError k)"
    by blast
next
  fix img result rest obs b
  assume img: "imdecode w (data msg) = Inr img"
    and res: "predict (model self) img (confidence_threshold self) = Inr (result # rest)"
    and obs: "obb result = Some obs"
    and stray: "\<exists>ob' \<in> set obs. py_int (cls ob') \<notin> dom (names (model self))"
  from stray_class_raises [OF img res obs stray]
  show "Detections b \<notin> set (published (image_callback w self msg))"
    by auto
qed

theorem class_name_lookup_witness:
  "demo_names (py_int (cls demo_obb)) = Some ''harbor''
   \<and> (\<exists>d. to_detection demo_names demo_obb = Inr d \<and> class_id d = 2 \<and> class_name d = ''harbor'')
   \<and> demo_names (py_int (cls stray_obb)) = None
   \<and> to_detection demo_names stray_obb = Inl (KeyError 5)
   \<and> uncaught (image_callback demo_cv (running_node (detector [stray_obb])) demo_msg)
       = Some (KeyError 5)"
proof -
  have known: "demo_names (py_int (cls demo_obb)) = Some ''harbor''"
    and two: "py_int (cls demo_obb) = 2"
    and unknown: "demo_names (py_int (cls stray_obb)) = None"
    and five: "py_int (cls stray_obb) = 5"
    by (simp_all add: demo_defs py_int_def)
  let ?s = "running_node (detector [stray_obb])"
  let ?r = "\<lparr> obb = Some [stray_obb], plot = [255, 216, 255::nat] \<rparr>"
  note inst = class_name_lookup [of demo_names demo_obb "''harbor''" demo_cv demo_msg ?s]
  note inst' = class_name_lookup [of demo_names stray_obb "''harbor''" demo_cv demo_msg ?s]
  from inst [THEN conjunct1, THEN mp, OF known] two
  have a: "\<exists>d. to_detection demo_names demo_obb = Inr d \<and> class_id d = 2 \<and> class_name d = ''harbor''"
    by simp
  from inst' [THEN conjunct2, THEN conjunct1, THEN mp, OF unknown] five
  have b: "to_detection demo_names stray_obb = Inl (KeyError 5)"
    by simp
  have 1: "imdecode demo_cv (data demo_msg) = Inr (Some [255, 216, 255])"
    and 2: "predict (model ?s) (Some [255, 216, 255]) (confidence_threshold ?s) = Inr [?r]"
    and 3: "obb ?r = Some [stray_obb]"
    and 5: "\<forall>buf. imencode demo_cv (annotated_frame demo_cv ?s ?r) \<noteq> Inr (False, buf)"
    and dom: "dom (names (model ?s)) = {0, 1, 2}"
    by (auto simp: demo_defs)
  have 4: "\<exists>ob' \<in> set [stray_obb]. py_int (cls ob') \<notin> dom (names (model ?s))"
    using five by (simp add: dom)
  from inst [THEN conjunct2, THEN conjunct2, THEN conjunct2, rule_format, OF 1 2 3 4 5 [rule_format],
      THEN conjunct1]
  obtain k where "uncaught (image_callback demo_cv ?s demo_msg) = Some (KeyError k)"
    by blast
  moreover have "uncaught (image_callback demo_cv ?s demo_msg) = Some (KeyError 5)"
    by (simp add: callback_defs demo_defs)
  ultimately show ?thesis using known unknown a b by simp
qed

subsection \<open>C9: the confidence threshold\<close>

text \<open>
  C9: the constructor takes the threshold from the parameter server, 0.5 when the
  parameter is not set; no call of the callback changes it; and the callback calls the
  detector with exactly this value, so that for a detector that returns no box below
  the threshold it is called with, no detection of a published batch has a score below
  the node's threshold.
\<close>

theorem threshold_pass_through:
  "(init h p = Serving self0 logs \<longrightarrow>
      confidence_threshold self0
        = (case param_confidence_threshold p of None \<Rightarrow> 0.5 | Some c \<Rightarrow> c))
   \<and> confidence_threshold (node_after (image_callback w self msg)) = confidence_threshold self
   \<and> ((\<forall>img results result obs ob.
          predict (model self) img (confidence_threshold self) = Inr results \<longrightarrow>
          result \<in> set results \<longrightarrow> obb result = Some obs \<longrightarrow> ob \<in> set obs \<longrightarrow>
          confidence_threshold self \<le> conf ob)
        \<longrightarrow> (\<forall>b d. Detections b \<in> set (published (image_callback w self msg)) \<longrightarrow>
                d \<in> set (detections b) \<longrightarrow> confidence_threshold self \<le> score d))"
proof (intro conjI allI impI)
  assume "init h p = Serving self0 logs"
  from init_Serving [OF this]
  show "confidence_threshold self0
        = (case param_confidence_threshold p of None \<Rightarrow> 0.5 | Some c \<Rightarrow> c)"
    by (simp add: get_param_def split: option.splits)
next
  show "confidence_threshold (node_after (image_callback w self msg)) = confidence_threshold self"
    using callback_keeps_config by blast
next
  fix b d
  assume honest: "\<forall>img results result obs ob.
          predict (model self) img (confidence_threshold self) = Inr results \<longrightarrow>
          result \<in> set results \<longrightarrow> obb result = Some obs \<longrightarrow> ob \<in> set obs \<longrightarrow>
          confidence_threshold self \<le> conf ob"
    and b: "Detections b \<in> set (published (image_callback w self msg))"
    and d: "d \<in> set (detections b)"
  from b have "published (image_callback w self msg) \<noteq> []" by auto
  then obtain img result rest where img: "imdecode w (data msg) = Inr img"
    and rs: "predict (model self) img (confidence_threshold self) = Inr (result # rest)"
    by (rule published_reached)
  from published_batch [OF img rs b]
  obtain dets where dets: "build_detections (names (model self)) (obb result) = Inr dets"
    and b_eq: "b = \<lparr> header = header msg, detections = dets \<rparr>"
    by blast
  from d b_eq have "d \<in> set dets" by simp
  from detection_source [OF build_detections_Inr [OF dets] this]
  obtain ob where ob: "ob \<in> set (case obb result of None \<Rightarrow> [] | Some obs \<Rightarrow> obs)"
    and conv: "to_detection (names (model self)) ob = Inr d"
    by blast
  from ob obtain obs where obs: "obb result = Some obs" "ob \<in> set obs"
    by (cases "obb result") auto
  from honest rs obs have "confidence_threshold self \<le> conf ob"
    by (metis list.set_intros(1))
  with to_detection_fields [OF conv] show "confidence_threshold self \<le> score d"
    by simp
qed

theorem threshold_pass_through_witness:
  "init demo_host demo_params =
     Serving fresh_node
       [Log INFO ''Loading TensorRT engine from /models/obb.engine'' None,
        Log INFO ''Ultralytics YOLO-OBB model loaded successfully.'' None,
        Log INFO ''YOLO OBB Ultralytics node initialized and ready.'' None]
   \<and> param_confidence_threshold demo_params = None
   \<and> confidence_threshold fresh_node = 0.5
   \<and> Detections \<lparr> header = (7, 100),
               detections = [\<lparr> class_id = 2, class_name = ''harbor'', score = 0.83,
                 x_center = 50, y_center = 60, width = 20, height = 10, angle = 0.3 \<rparr>] \<rparr>
        \<in> set (published
            (image_callback demo_cv (running_node (detector [faint_obb, demo_obb])) demo_msg))
   \<and> confidence_threshold (running_node (detector [faint_obb, demo_obb])) \<le> 0.83"
proof -
  let ?s = "running_node (detector [faint_obb, demo_obb])"
  let ?d = "\<lparr> class_id = 2, class_name = ''harbor'', score = 0.83,
                 x_center = 50, y_center = 60, width = 20, height = 10, angle = 0.3 \<rparr>"
  let ?b = "\<lparr> header = (7::nat, 100::real), detections = [?d] \<rparr>"
  note inst = threshold_pass_through [of demo_host demo_params fresh_node _ demo_cv ?s demo_msg]
  have unset: "param_confidence_threshold demo_params = None"
    by (simp add: demo_params_def)
  from inst [THEN conjunct1, THEN mp, OF init_demo] unset
  have dflt: "confidence_threshold fresh_node = 0.5"
    by simp
  have honest: "\<forall>img results result obs ob.
          predict (model ?s) img (confidence_threshold ?s) = Inr results \<longrightarrow>
          result \<in> set results \<longrightarrow> obb result = Some obs \<longrightarrow> ob \<in> set obs \<longrightarrow>
          confidence_threshold ?s \<le> conf ob"
    by (auto simp: demo_defs)
  have pub: "Detections ?b \<in> set (published (image_callback demo_cv ?s demo_msg))"
    by (simp add: callback_defs demo_defs faint_obb_def)
  have "?d \<in> set (detections ?b)" by simp
  with inst [THEN conjunct2, THEN conjunct2, THEN mp, OF honest, rule_format, OF pub]
  have "confidence_threshold ?s \<le> score ?d" by blast
  with init_demo unset dflt pub show ?thesis by (simp del: set_simps)
qed

subsection \<open>C10: an exception while encoding or publishing the annotated image\<close>

text \<open>
  C10: when the callback has reached the image step (the frame decoded, the detector
  returned a result and its plot) and \<open>imencode\<close> or the publication of the annotated
  image raises, the exception is caught and logged inside the callback, the detection
  batch of the frame is still built and published, as the only message of the cycle,
  and no exception leaves the callback.
\<close>

theorem encode_exception_caught:
  "imdecode w (data msg) = Inr img \<Longrightarrow>
   predict (model self) img (confidence_threshold self) = Inr (result # rest) \<Longrightarrow>
   result_plot (names (model self)) result = Inr frame \<Longrightarrow>
   imencode w (draw_fps w (tracked w self) frame) = Inl e
   \<or> (\<exists>buf. imencode w (draw_fps w (tracked w self) frame) = Inr (True, buf)
         \<and> image_publish w \<lparr> header = header msg, format = ''jpeg'', data = buf \<rparr> = Some e) \<Longrightarrow>
   logged (image_callback w self msg)
     = [Log ERROR ''Error publishing annotated image: '' (Some e)]
   \<and> (\<exists>dets. build_detections (names (model self)) (obb result) = Inr dets
          \<and> published (image_callback w self msg)
              = [Detections \<lparr> header = header msg, detections = dets \<rparr>])
   \<and> uncaught (image_callback w self msg) = None"
proof -
  assume img: "imdecode w (data msg) = Inr img"
    and res: "predict (model self) img (confidence_threshold self) = Inr (result # rest)"
    and plt: "result_plot (names (model self)) result = Inr frame"
    and raised: "imencode w (draw_fps w (tracked w self) frame) = Inl e
      \<or> (\<exists>buf. imencode w (draw_fps w (tracked w self) frame) = Inr (True, buf)
         \<and> image_publish w \<lparr> header = header msg, format = ''jpeg'', data = buf \<rparr> = Some e)"
  from plt have frame: "frame = plot result"
    by (simp add: result_plot_Inr)
  have cb: "image_callback w self msg =
      publish_results w (tracked w self) (header msg) result (annotated_frame w self result)"
    using img res plt by (rule callback_result)
  from raised
  have caught: "publish_annotated w (header msg) (annotated_frame w self result) = Caught e"
    unfolding frame by (simp only: publish_annotated_Caught)
  from build_detections_plotted [OF plt]
  obtain dets where dets: "build_detections (names (model self)) (obb result) = Inr dets" ..
  from dets have "logged (image_callback w self msg)
       = [Log ERROR ''Error publishing annotated image: '' (Some e)]
     \<and> published (image_callback w self msg)
       = [Detections \<lparr> header = header msg, detections = dets \<rparr>]
     \<and> uncaught (image_callback w self msg) = None"
    unfolding cb by (simp add: results_caught [OF caught] tracked_model)
  with dets show ?thesis by blast
qed

theorem encode_exception_caught_witness:
  "imdecode raising_cv (data demo_msg) = Inr (Some [255, 216, 255])
   \<and> predict (model (running_node (detector [demo_obb]))) (Some [255, 216, 255])
         (confidence_threshold (running_node (detector [demo_obb])))
       = Inr [\<lparr> obb = Some [demo_obb], plot = [255, 216, 255] \<rparr>]
   \<and> result_plot (names (model (running_node (detector [demo_obb]))))
         \<lparr> obb = Some [demo_obb], plot = [255, 216, 255::nat] \<rparr> = Inr [255, 216, 255]
   \<and> imencode raising_cv
       (draw_fps raising_cv (tracked raising_cv (running_node (detector [demo_obb])))
          [255, 216, 255]) = Inl (Exception ''encoder'')
   \<and> logged (image_callback raising_cv (running_node (detector [demo_obb])) demo_msg)
       = [Log ERROR ''Error publishing annotated image: '' (Some (Exception ''encoder''))]
   \<and> published (image_callback raising_cv (running_node (detector [demo_obb])) demo_msg)
       = [Detections \<lparr> header = (7, 100),
            detections = [\<lparr> class_id = 2, class_name = ''harbor'', score = 0.83,
              x_center = 50, y_center = 60, width = 20, height = 10, angle = 0.3 \<rparr>] \<rparr>]
   \<and> uncaught (image_callback raising_cv (running_node (detector [demo_obb])) demo_msg) = None"
proof -
  let ?s = "running_node (detector [demo_obb])"
  let ?r = "\<lparr> obb = Some [demo_obb], plot = [255, 216, 255::nat] \<rparr>"
  let ?dets = "[\<lparr> class_id = 2, class_name = ''harbor'', score = 0.83,
              x_center = 50, y_center = 60, width = 20, height = 10, angle = 0.3 \<rparr>]"
  have 1: "imdecode raising_cv (data demo_msg) = Inr (Some [255, 216, 255])"
    and 2: "predict (model ?s) (Some [255, 216, 255]) (confidence_threshold ?s) = Inr [?r]"
    and 3: "result_plot (names (model ?s)) ?r = Inr [255, 216, 255]"
    and 4: "imencode raising_cv (draw_fps raising_cv (tracked raising_cv ?s) [255, 216, 255])
        = Inl (Exception ''encoder'')"
    by (simp_all add: demo_defs result_plot_def py_int_def)
  have 5: "build_detections (names (model ?s)) (obb ?r) = Inr ?dets"
    by (simp add: demo_defs build_detections_def to_detection_def py_int_def Let_def)
  note inst = encode_exception_caught [OF 1 2 3 disjI1, OF 4]
  from inst 5 have "published (image_callback raising_cv ?s demo_msg)
      = [Detections \<lparr> header = header demo_msg, detections = ?dets \<rparr>]"
    by auto
  with inst 1 2 3 4 show ?thesis by (simp add: demo_msg_def)
qed

end
